theory Spec2Isabelle
  imports Main "HOL-Library.Sublist"
begin

section \<open>Python values and their string form\<close>

text \<open>
  The client is dynamically typed: the constructor and the upload methods accept whatever
  the caller hands over. The values that occur in the documented use are strings (URL,
  user name, password, project, message, partition, service name), integers (the unix
  timestamp) and \<open>None\<close>.
\<close>

datatype pyval = PNone | PStr string | PInt int

text \<open>Decimal digits of a natural number, most significant first, as \<open>str\<close> prints them.\<close>

fun str_nat :: "nat \<Rightarrow> string" where
  "str_nat n =
     (if n < 10 then [''0123456789'' ! n]
      else str_nat (n div 10) @ [''0123456789'' ! (n mod 10)])"

declare str_nat.simps [simp del]

definition str_int :: "int \<Rightarrow> string" where
  "str_int i = (if i < 0 then CHR ''-'' # str_nat (nat (- i)) else str_nat (nat i))"

text \<open>What \<open>%s\<close> and \<open>{}\<close> insert for a value: Python's \<open>str(v)\<close>.\<close>

fun py_str :: "pyval \<Rightarrow> string" where
  "py_str PNone = ''None''"
| "py_str (PStr s) = s"
| "py_str (PInt i) = str_int i"

text \<open>
  A JSON document as a tree. The client never looks inside a payload, so the operations
  below are polymorphic in the payload type; this type is the one used in examples.
\<close>

datatype json =
    JNull
  | JBool bool
  | JInt int
  | JStr string
  | JArr "json list"
  | JObj "(string \<times> json) list"

section \<open>Errors, the client object, requests and responses\<close>

text \<open>
  \<open>Exception\<close> is the one exception the client raises itself (in \<open>put\<close>).
  \<open>TypeError\<close> is what Python raises when \<open>TeamscaleClient(...)\<close> is called with the
  wrong number of arguments. \<open>ExternalError\<close> stands for whatever the libraries raise
  (\<open>requests\<close>, \<open>open\<close>, \<open>simplejson\<close>): exception class and message.
\<close>

datatype error =
    Exception string
  | TypeError
  | ExternalError string string

text \<open>\<open>requests.auth.HTTPBasicAuth(username, password)\<close>: an object holding the two values.\<close>

datatype auth = HTTPBasicAuth pyval pyval

text \<open>The attributes of a \<open>TeamscaleClient\<close> instance: \<open>self.url\<close>, \<open>self.username\<close>,
  \<open>self.auth_header\<close>, \<open>self.project\<close>.\<close>

record client =
  self_url :: pyval
  self_username :: pyval
  self_auth_header :: auth
  self_project :: pyval

datatype http_method = GET | POST | PUT | DELETE

text \<open>
  One call of the \<open>requests\<close> library: the function called (\<open>requests.put\<close>) and its
  arguments \<open>url\<close>, \<open>params\<close>, \<open>json\<close>, \<open>headers\<close>, \<open>auth\<close>. A Python dict literal is
  kept as the list of its items in the order written.
\<close>

record 'j request =
  req_method :: http_method
  req_url :: string
  req_params :: "(string \<times> pyval) list"
  req_json :: 'j
  req_headers :: "(string \<times> string) list"
  req_auth :: auth

text \<open>The two attributes of \<open>requests.Response\<close> the client reads: \<open>status_code\<close> and \<open>text\<close>.\<close>

record response =
  status_code :: int
  resp_text :: string

text \<open>
  The libraries the client calls are not part of the repository; their behaviour is a
  parameter. \<open>requests_put\<close> is the network round trip (a response, or an exception of the
  library such as a connection error); \<open>open_read\<close> is \<open>open(path)\<close> followed by reading
  the whole file; \<open>json_load\<close> is the parser of \<open>simplejson\<close> on that text.
\<close>

record 'j env =
  requests_put :: "'j request \<Rightarrow> error + response"
  open_read :: "string \<Rightarrow> error + string"
  json_load :: "string \<Rightarrow> error + 'j"

section \<open>The operations of TeamscaleClient\<close>

text \<open>
  Every method is a function of the object \<open>self\<close> and of the list \<open>sent\<close> of HTTP
  requests issued so far (oldest first). It returns its outcome (\<open>Inl\<close> an exception
  raised, \<open>Inr\<close> the value returned), the object after the call and the requests issued
  after the call.
\<close>

text \<open>The body of \<open>__init__\<close>: four attribute assignments.\<close>

definition init :: "pyval \<Rightarrow> pyval \<Rightarrow> pyval \<Rightarrow> pyval \<Rightarrow> client" where
  "init url username password project =
     \<lparr>self_url = url,
      self_username = username,
      self_auth_header = HTTPBasicAuth username password,
      self_project = project\<rparr>"

text \<open>
  The call \<open>TeamscaleClient(...)\<close> with the list of arguments supplied. The signature
  \<open>__init__(self, url, username, password, project)\<close> has no defaults, so Python binds
  exactly four arguments and raises \<open>TypeError\<close> for any other number.
\<close>

fun TeamscaleClient ::
  "pyval list \<Rightarrow> 'j request list \<Rightarrow> (error + client) \<times> 'j request list" where
  "TeamscaleClient [url, username, password, project] sent =
     (Inr (init url username password project), sent)"
| "TeamscaleClient args sent = (Inl TypeError, sent)"

text \<open>
  \<open>put\<close>. The message is built as \<open>"ERROR: PUT " + url + ": {}:{}".format(...)\<close>: the
  method call binds tighter than \<open>+\<close>, so only the last piece is a format string and the
  URL is inserted verbatim.
\<close>

definition put ::
  "'j env \<Rightarrow> client \<Rightarrow> string \<Rightarrow> 'j \<Rightarrow> (string \<times> pyval) list \<Rightarrow> 'j request list
     \<Rightarrow> (error + response) \<times> client \<times> 'j request list" where
  "put env self url json parameters sent =
     (let request =
            \<lparr>req_method = PUT,
             req_url = url,
             req_params = parameters,
             req_json = json,
             req_headers = [(''Content-Type'', ''application/json'')],
             req_auth = self_auth_header self\<rparr>;
          sent' = sent @ [request]
      in case requests_put env request of
           Inl e \<Rightarrow> (Inl e, self, sent')
         | Inr response \<Rightarrow>
             if status_code response \<noteq> 200
             then (Inl (Exception
                     (''ERROR: PUT '' @ url @
                        ('': '' @ str_int (status_code response) @ '':'' @ resp_text response))),
                   self, sent')
             else (Inr response, self, sent'))"

text \<open>\<open>get_project_service_url\<close>: \<open>"%s/p/%s/%s/" % (self.url, self.project, service_name)\<close>.\<close>

definition get_project_service_url ::
  "client \<Rightarrow> pyval \<Rightarrow> 'j request list \<Rightarrow> (error + string) \<times> client \<times> 'j request list" where
  "get_project_service_url self service_name sent =
     (Inr (py_str (self_url self) @ ''/p/'' @ py_str (self_project self) @ ''/'' @
           py_str service_name @ ''/''),
      self, sent)"

text \<open>\<open>_upload_external_data\<close> (an Isabelle name cannot start with an underscore).\<close>

definition upload_external_data ::
  "'j env \<Rightarrow> client \<Rightarrow> pyval \<Rightarrow> 'j \<Rightarrow> pyval \<Rightarrow> pyval \<Rightarrow> pyval \<Rightarrow> 'j request list
     \<Rightarrow> (error + response) \<times> client \<times> 'j request list" where
  "upload_external_data env self service_name json_data timestamp message partition' sent =
     (case get_project_service_url self service_name sent of
        (Inl e, self1, sent1) \<Rightarrow> (Inl e, self1, sent1)
      | (Inr service_url, self1, sent1) \<Rightarrow>
          (let parameters =
                 [(''t'', timestamp),
                  (''message'', message),
                  (''partition'', partition'),
                  (''skip-session'', PStr ''true'')]
           in put env self1 service_url json_data parameters sent1))"

definition upload_findings ::
  "'j env \<Rightarrow> client \<Rightarrow> 'j \<Rightarrow> pyval \<Rightarrow> pyval \<Rightarrow> pyval \<Rightarrow> 'j request list
     \<Rightarrow> (error + response) \<times> client \<times> 'j request list" where
  "upload_findings env self findings timestamp message partition' sent =
     upload_external_data env self (PStr ''add-external-findings'')
       findings timestamp message partition' sent"

definition upload_metrics ::
  "'j env \<Rightarrow> client \<Rightarrow> 'j \<Rightarrow> pyval \<Rightarrow> pyval \<Rightarrow> pyval \<Rightarrow> 'j request list
     \<Rightarrow> (error + response) \<times> client \<times> 'j request list" where
  "upload_metrics env self metrics timestamp message partition' sent =
     upload_external_data env self (PStr ''add-external-metrics'')
       metrics timestamp message partition' sent"

text \<open>
  \<open>read_json_from_file\<close>: \<open>with open(file_path) as json_file: return json.load(json_file)\<close>.
  An exception of \<open>open\<close>, of the read or of the parser leaves the method as it is.
\<close>

definition read_json_from_file ::
  "'j env \<Rightarrow> client \<Rightarrow> string \<Rightarrow> 'j request list \<Rightarrow> (error + 'j) \<times> client \<times> 'j request list" where
  "read_json_from_file env self file_path sent =
     (case open_read env file_path of
        Inl e \<Rightarrow> (Inl e, self, sent)
      | Inr content \<Rightarrow>
          (case json_load env content of
             Inl e \<Rightarrow> (Inl e, self, sent)
           | Inr json_data \<Rightarrow> (Inr json_data, self, sent)))"

text \<open>
  The spec's word "absent" for a configuration value, read as a value that carries no
  information: \<open>None\<close> or the empty string.
\<close>

definition absent :: "pyval \<Rightarrow> bool" where
  "absent v = (v = PNone \<or> v = PStr [])"

text \<open>
  A test double for the libraries, used in the examples: the HTTP call answers every request
  with the given response; the file system holds \<open>a.json\<close> (the text \<open>{"a": 1}\<close>) and
  \<open>bad.json\<close> (the truncated text \<open>{"a": \<close>) and nothing else; the parser knows the one
  document \<open>{"a": 1}\<close> and rejects every other text.
\<close>

definition stub_env :: "response \<Rightarrow> json env" where
  \<open>stub_env answer =
     \<lparr>requests_put = (\<lambda>request. Inr answer),
      open_read = (\<lambda>path.
         if path = ''a.json'' then Inr ''{"a": 1}''
         else if path = ''bad.json'' then Inr ''{"a": ''
         else Inl (ExternalError ''FileNotFoundError'' path)),
      json_load = (\<lambda>content.
         if content = ''{"a": 1}'' then Inr (JObj [(''a'', JInt 1)])
         else Inl (ExternalError ''JSONDecodeError'' content))\<rparr>\<close>

section \<open>Shared facts about the operations\<close>

lemma put_sent:
  "snd (snd (put env self url json parameters sent)) =
     sent @ [\<lparr>req_method = PUT, req_url = url, req_params = parameters, req_json = json,
              req_headers = [(''Content-Type'', ''application/json'')],
              req_auth = self_auth_header self\<rparr>]"
  by (simp add: put_def Let_def split: sum.split)

lemma put_self: "fst (snd (put env self url json parameters sent)) = self"
  by (simp add: put_def Let_def split: sum.split)

lemma upload_external_data_put:
  "upload_external_data env self service_name json_data timestamp message partition' sent =
     put env self
       (py_str (self_url self) @ ''/p/'' @ py_str (self_project self) @ ''/'' @
        py_str service_name @ ''/'')
       json_data
       [(''t'', timestamp), (''message'', message), (''partition'', partition'),
        (''skip-session'', PStr ''true'')]
       sent"
  by (simp add: upload_external_data_def get_project_service_url_def)

text \<open>
  Claim C1. For every client, payload, timestamp, message and partition, \<open>upload_findings\<close>
  adds exactly one request to the requests issued: a PUT to the URL that
  \<open>get_project_service_url\<close> returns for \<open>add-external-findings\<close>, with the query
  parameters \<open>t\<close>, \<open>message\<close>, \<open>partition\<close> and \<open>skip-session = "true"\<close> and the
  payload as the body; \<open>upload_metrics\<close> does the same for \<open>add-external-metrics\<close>. This
  holds whatever the network answers.
\<close>

theorem upload_issues_one_put:
  "snd (snd (upload_findings env self findings timestamp message partition' sent)) =
     sent @ [\<lparr>req_method = PUT,
              req_url = py_str (self_url self) @ ''/p/'' @ py_str (self_project self) @
                        ''/add-external-findings/'',
              req_params = [(''t'', timestamp), (''message'', message),
                            (''partition'', partition'), (''skip-session'', PStr ''true'')],
              req_json = findings,
              req_headers = [(''Content-Type'', ''application/json'')],
              req_auth = self_auth_header self\<rparr>]
   \<and> fst (get_project_service_url self (PStr ''add-external-findings'') sent) =
       Inr (py_str (self_url self) @ ''/p/'' @ py_str (self_project self) @
            ''/add-external-findings/'')
   \<and> snd (snd (upload_metrics env self metrics timestamp message partition' sent)) =
     sent @ [\<lparr>req_method = PUT,
              req_url = py_str (self_url self) @ ''/p/'' @ py_str (self_project self) @
                        ''/add-external-metrics/'',
              req_params = [(''t'', timestamp), (''message'', message),
                            (''partition'', partition'), (''skip-session'', PStr ''true'')],
              req_json = metrics,
              req_headers = [(''Content-Type'', ''application/json'')],
              req_auth = self_auth_header self\<rparr>]
   \<and> fst (get_project_service_url self (PStr ''add-external-metrics'') sent) =
       Inr (py_str (self_url self) @ ''/p/'' @ py_str (self_project self) @
            ''/add-external-metrics/'')"
  by (simp add: upload_findings_def upload_metrics_def upload_external_data_put put_sent
      get_project_service_url_def)

text \<open>
  Claim C2. When the HTTP call yields a response, \<open>put\<close> returns that very response if and
  only if its status code is 200; for any other status code it raises \<open>Exception\<close> with
  the message \<open>"ERROR: PUT " + url + ": " + status_code + ":" + text\<close>, which contains the
  URL, the status code in decimal and the body text.
\<close>

theorem put_returns_iff_200:
  assumes "requests_put env
             \<lparr>req_method = PUT, req_url = url, req_params = parameters, req_json = json,
              req_headers = [(''Content-Type'', ''application/json'')],
              req_auth = self_auth_header self\<rparr> = Inr response"
  shows "(fst (put env self url json parameters sent) = Inr response) =
           (status_code response = 200)
       \<and> (status_code response \<noteq> 200 \<longrightarrow>
            fst (put env self url json parameters sent) =
              Inl (Exception (''ERROR: PUT '' @ url @ '': '' @ str_int (status_code response) @
                              '':'' @ resp_text response))
            \<and> sublist url (''ERROR: PUT '' @ url @ '': '' @ str_int (status_code response) @
                              '':'' @ resp_text response)
            \<and> sublist (str_int (status_code response))
                 (''ERROR: PUT '' @ url @ '': '' @ str_int (status_code response) @
                              '':'' @ resp_text response)
            \<and> sublist (resp_text response)
                 (''ERROR: PUT '' @ url @ '': '' @ str_int (status_code response) @
                              '':'' @ resp_text response))"
proof -
  have contains_url: "sublist url (''ERROR: PUT '' @ url @ rest)" for rest
    by (rule sublist_appendI)
  have contains_status:
    "sublist (str_int (status_code response))
       ((''ERROR: PUT '' @ url @ '': '') @ str_int (status_code response) @ rest)" for rest
    by (rule sublist_appendI)
  have contains_text:
    "sublist (resp_text response)
       ((''ERROR: PUT '' @ url @ '': '' @ str_int (status_code response) @ '':'') @
        resp_text response @ [])"
    by (rule sublist_appendI)
  from assms have result:
    "fst (put env self url json parameters sent) =
       (if status_code response \<noteq> 200
        then Inl (Exception (''ERROR: PUT '' @ url @ '': '' @ str_int (status_code response) @
                              '':'' @ resp_text response))
        else Inr response)"
    by (simp add: put_def Let_def)
  show ?thesis
    using result contains_url contains_status contains_text by simp
qed

text \<open>
  The spec's example: status 404 with body \<open>not found\<close> raises, status 200 returns the
  response.
\<close>

theorem put_returns_iff_200_witness:
  "fst (put (stub_env \<lparr>status_code = 404, resp_text = ''not found''\<rparr>)
         (init (PStr ''http://ts.example.com'') (PStr ''user'') (PStr ''key'') (PStr ''proj1''))
         ''http://ts.example.com/p/proj1/add-external-metrics/'' JNull [] [])
     = Inl (Exception
         ''ERROR: PUT http://ts.example.com/p/proj1/add-external-metrics/: 404:not found'')
   \<and> fst (put (stub_env \<lparr>status_code = 200, resp_text = ''ok''\<rparr>)
         (init (PStr ''http://ts.example.com'') (PStr ''user'') (PStr ''key'') (PStr ''proj1''))
         ''http://ts.example.com/p/proj1/add-external-metrics/'' JNull [] [])
     = Inr \<lparr>status_code = 200, resp_text = ''ok''\<rparr>"
proof -
  let ?c = "init (PStr ''http://ts.example.com'') (PStr ''user'') (PStr ''key'') (PStr ''proj1'')"
  let ?u = "''http://ts.example.com/p/proj1/add-external-metrics/''"
  have digits: "str_int 404 = ''404''"
    by (simp add: str_int_def str_nat.simps)
  have "requests_put (stub_env \<lparr>status_code = 404, resp_text = ''not found''\<rparr>)
          \<lparr>req_method = PUT, req_url = ?u, req_params = [], req_json = JNull,
           req_headers = [(''Content-Type'', ''application/json'')],
           req_auth = self_auth_header ?c\<rparr> = Inr \<lparr>status_code = 404, resp_text = ''not found''\<rparr>"
    by (simp add: stub_env_def)
  from put_returns_iff_200 [OF this, of "[]"] have a:
    "fst (put (stub_env \<lparr>status_code = 404, resp_text = ''not found''\<rparr>) ?c ?u JNull [] [])
       = Inl (Exception
           ''ERROR: PUT http://ts.example.com/p/proj1/add-external-metrics/: 404:not found'')"
    by (simp add: digits)
  have "requests_put (stub_env \<lparr>status_code = 200, resp_text = ''ok''\<rparr>)
          \<lparr>req_method = PUT, req_url = ?u, req_params = [], req_json = JNull,
           req_headers = [(''Content-Type'', ''application/json'')],
           req_auth = self_auth_header ?c\<rparr> = Inr \<lparr>status_code = 200, resp_text = ''ok''\<rparr>"
    by (simp add: stub_env_def)
  from put_returns_iff_200 [OF this, of "[]"] have b:
    "fst (put (stub_env \<lparr>status_code = 200, resp_text = ''ok''\<rparr>) ?c ?u JNull [] [])
       = Inr \<lparr>status_code = 200, resp_text = ''ok''\<rparr>"
    by simp
  from a b show ?thesis by simp
qed

text \<open>
  Claim C3. For every client and every service name, \<open>get_project_service_url\<close> returns
  the string \<open><url>/p/<project>/<service_name>/\<close> (each value in its \<open>str\<close> form, a string
  as it is): it never raises, issues no request and leaves the client as it is. With url
  \<open>http://ts.example.com\<close> and project \<open>proj1\<close>, the service \<open>add-external-metrics\<close> gives
  \<open>http://ts.example.com/p/proj1/add-external-metrics/\<close>.
\<close>

theorem get_project_service_url_exact:
  "get_project_service_url self service_name sent =
     (Inr (py_str (self_url self) @ ''/p/'' @ py_str (self_project self) @ ''/'' @
           py_str service_name @ ''/''), self, sent)
   \<and> get_project_service_url (init (PStr url) username password (PStr project))
         (PStr name) sent =
     (Inr (url @ ''/p/'' @ project @ ''/'' @ name @ ''/''),
      init (PStr url) username password (PStr project), sent)
   \<and> fst (get_project_service_url
            (init (PStr ''http://ts.example.com'') username password (PStr ''proj1''))
            (PStr ''add-external-metrics'') sent) =
     Inr ''http://ts.example.com/p/proj1/add-external-metrics/''"
  by (simp add: get_project_service_url_def init_def)

text \<open>
  Claim C4, as amended. Construction fails, with a \<open>TypeError\<close>, if any of the four
  required configuration values is not supplied in the call, that is if fewer than four
  arguments are passed. A value that is supplied is not inspected: called with four values,
  \<open>None\<close> and the empty string included, construction succeeds and stores each value as
  given, issuing no request either way.
\<close>

theorem TeamscaleClient_fails_if_argument_missing:
  "(length args < 4 \<longrightarrow> TeamscaleClient args sent = (Inl TypeError, sent))
   \<and> TeamscaleClient [url, username, password, project] sent =
       (Inr \<lparr>self_url = url,
             self_username = username,
             self_auth_header = HTTPBasicAuth username password,
             self_project = project\<rparr>, sent)"
proof
  show "length args < 4 \<longrightarrow> TeamscaleClient args sent = (Inl TypeError, sent)"
    by (cases "(args, sent)" rule: TeamscaleClient.cases) auto
next
  show "TeamscaleClient [url, username, password, project] sent =
          (Inr \<lparr>self_url = url,
                self_username = username,
                self_auth_header = HTTPBasicAuth username password,
                self_project = project\<rparr>, sent)"
    by (simp add: init_def)
qed

text \<open>
  A call that leaves out the project fails; a call that passes \<open>None\<close> for the URL and the
  empty string for the user name succeeds and stores both.
\<close>

theorem TeamscaleClient_fails_if_argument_missing_witness:
  "length [PStr ''http://ts.example.com'', PStr ''user'', PStr ''key''] < 4
   \<and> TeamscaleClient [PStr ''http://ts.example.com'', PStr ''user'', PStr ''key'']
         ([] :: json request list) = (Inl TypeError, [])
   \<and> TeamscaleClient [PNone, PStr '''', PStr ''key'', PStr ''proj1'']
         ([] :: json request list) =
       (Inr \<lparr>self_url = PNone,
             self_username = PStr '''',
             self_auth_header = HTTPBasicAuth (PStr '''') (PStr ''key''),
             self_project = PStr ''proj1''\<rparr>, [])"
proof -
  have missing: "length [PStr ''http://ts.example.com'', PStr ''user'', PStr ''key''] < 4"
    by simp
  have fails: "TeamscaleClient [PStr ''http://ts.example.com'', PStr ''user'', PStr ''key'']
                 ([] :: json request list) = (Inl TypeError, [])"
    using TeamscaleClient_fails_if_argument_missing
            [of "[PStr ''http://ts.example.com'', PStr ''user'', PStr ''key'']"
                "[] :: json request list"]
          missing
    by blast
  have stores: "TeamscaleClient [PNone, PStr '''', PStr ''key'', PStr ''proj1'']
                  ([] :: json request list) =
                (Inr \<lparr>self_url = PNone,
                      self_username = PStr '''',
                      self_auth_header = HTTPBasicAuth (PStr '''') (PStr ''key''),
                      self_project = PStr ''proj1''\<rparr>, [])"
    using TeamscaleClient_fails_if_argument_missing
            [of "[]" "[] :: json request list" PNone "PStr ''''" "PStr ''key''" "PStr ''proj1''"]
    by blast
  from missing fails stores show ?thesis
    by (intro conjI)
qed

text \<open>
  The claim as stated fails: with the project given as \<open>None\<close> and the password as the
  empty string, both absent values, construction succeeds and stores them.
\<close>

theorem TeamscaleClient_absent_value_counterexample:
  "absent PNone \<and> absent (PStr '''')
   \<and> TeamscaleClient [PStr ''http://ts.example.com'', PStr ''user'', PStr '''', PNone]
         ([] :: json request list) =
       (Inr \<lparr>self_url = PStr ''http://ts.example.com'',
             self_username = PStr ''user'',
             self_auth_header = HTTPBasicAuth (PStr ''user'') (PStr ''''),
             self_project = PNone\<rparr>, [])"
  by (simp add: absent_def init_def)

text \<open>
  Claim C5. \<open>_upload_external_data\<close> takes its URL from \<open>get_project_service_url\<close> and its
  whole outcome from \<open>put\<close> on that URL: the value returned on success, the exception on
  failure, the client and the requests issued are those of \<open>put\<close>.
\<close>

theorem upload_external_data_is_put:
  "\<exists>service_url.
     get_project_service_url self service_name sent = (Inr service_url, self, sent)
     \<and> upload_external_data env self service_name json_data timestamp message partition' sent =
         put env self service_url json_data
           [(''t'', timestamp), (''message'', message), (''partition'', partition'),
            (''skip-session'', PStr ''true'')]
           sent"
  by (simp add: upload_external_data_def get_project_service_url_def)

text \<open>
  Claim C6. The request that \<open>put\<close> sends, and so the request of either upload, has the
  headers \<open>Content-Type: application/json\<close> and the client's \<open>HTTPBasicAuth\<close> object; for a
  client built by the constructor that object holds the user name and the password given
  there.
\<close>

theorem put_sends_json_header_and_basic_auth:
  "(\<exists>r. snd (snd (put env self url json parameters sent)) = sent @ [r]
        \<and> req_headers r = [(''Content-Type'', ''application/json'')]
        \<and> req_auth r = self_auth_header self)
   \<and> (\<exists>r. snd (snd (upload_findings env self findings timestamp message partition' sent)) =
            sent @ [r]
        \<and> req_headers r = [(''Content-Type'', ''application/json'')]
        \<and> req_auth r = self_auth_header self)
   \<and> (\<exists>r. snd (snd (upload_metrics env self metrics timestamp message partition' sent)) =
            sent @ [r]
        \<and> req_headers r = [(''Content-Type'', ''application/json'')]
        \<and> req_auth r = self_auth_header self)
   \<and> self_auth_header (init base username password project) = HTTPBasicAuth username password"
  by (simp add: upload_findings_def upload_metrics_def upload_external_data_put put_sent
      init_def)

text \<open>
  Claim C7. \<open>read_json_from_file\<close> returns what the parser makes of the file's contents;
  when the file cannot be opened or read, or the parser rejects the contents, it raises
  that exception and returns no value.
\<close>

theorem read_json_from_file_result:
  "(open_read env file_path = Inr content \<and> json_load env content = Inr json_data \<longrightarrow>
      fst (read_json_from_file env self file_path sent) = Inr json_data)
   \<and> (open_read env file_path = Inl e \<longrightarrow>
      fst (read_json_from_file env self file_path sent) = Inl e)
   \<and> (open_read env file_path = Inr content \<and> json_load env content = Inl e \<longrightarrow>
      fst (read_json_from_file env self file_path sent) = Inl e)"
  by (simp add: read_json_from_file_def)

text \<open>
  The spec's example: a file holding \<open>{"a": 1}\<close> yields the mapping \<open>{"a": 1}\<close>; a missing
  file and a file with malformed JSON yield an exception.
\<close>

theorem read_json_from_file_result_witness:
  \<open>open_read (stub_env \<lparr>status_code = 200, resp_text = ''''\<rparr>) ''a.json'' = Inr ''{"a": 1}''
   \<and> json_load (stub_env \<lparr>status_code = 200, resp_text = ''''\<rparr>) ''{"a": 1}'' =
       Inr (JObj [(''a'', JInt 1)])
   \<and> fst (read_json_from_file (stub_env \<lparr>status_code = 200, resp_text = ''''\<rparr>)
        (init PNone PNone PNone PNone) ''a.json'' []) = Inr (JObj [(''a'', JInt 1)])
   \<and> fst (read_json_from_file (stub_env \<lparr>status_code = 200, resp_text = ''''\<rparr>)
        (init PNone PNone PNone PNone) ''missing.json'' []) =
       Inl (ExternalError ''FileNotFoundError'' ''missing.json'')
   \<and> fst (read_json_from_file (stub_env \<lparr>status_code = 200, resp_text = ''''\<rparr>)
        (init PNone PNone PNone PNone) ''bad.json'' []) =
       Inl (ExternalError ''JSONDecodeError'' ''{"a": '')\<close>
proof -
  let ?env = "stub_env \<lparr>status_code = 200, resp_text = ''''\<rparr>"
  let ?self = "init PNone PNone PNone PNone"
  have opened: \<open>open_read ?env ''a.json'' = Inr ''{"a": 1}''\<close>
    and parsed: \<open>json_load ?env ''{"a": 1}'' = Inr (JObj [(''a'', JInt 1)])\<close>
    and missing: \<open>open_read ?env ''missing.json'' =
                   Inl (ExternalError ''FileNotFoundError'' ''missing.json'')\<close>
    and opened_bad: \<open>open_read ?env ''bad.json'' = Inr ''{"a": ''\<close>
    and rejected: \<open>json_load ?env ''{"a": '' = Inl (ExternalError ''JSONDecodeError'' ''{"a": '')\<close>
    by (simp_all add: stub_env_def)
  have good: "fst (read_json_from_file ?env ?self ''a.json'' []) = Inr (JObj [(''a'', JInt 1)])"
    using read_json_from_file_result
            [where env = ?env and file_path = "''a.json''" and self = ?self and sent = "[]"]
          opened parsed
    by blast
  have no_file: "fst (read_json_from_file ?env ?self ''missing.json'' []) =
                   Inl (ExternalError ''FileNotFoundError'' ''missing.json'')"
    using read_json_from_file_result
            [where env = ?env and file_path = "''missing.json''" and self = ?self and sent = "[]"]
          missing
    by blast
  have bad: \<open>fst (read_json_from_file ?env ?self ''bad.json'' []) =
               Inl (ExternalError ''JSONDecodeError'' ''{"a": '')\<close>
    using read_json_from_file_result
            [where env = ?env and file_path = "''bad.json''" and self = ?self and sent = "[]"]
          opened_bad rejected
    by blast
  from opened parsed good no_file bad show ?thesis
    by (intro conjI)
qed

text \<open>
  Claim C8. No operation changes the client: after \<open>put\<close>, \<open>upload_findings\<close>,
  \<open>upload_metrics\<close>, \<open>_upload_external_data\<close>, \<open>get_project_service_url\<close> and
  \<open>read_json_from_file\<close> the object is the one before the call, whether the call returned
  or raised.
\<close>

theorem operations_leave_client_unchanged:
  "fst (snd (put env self url json parameters sent)) = self
   \<and> fst (snd (upload_findings env self findings timestamp message partition' sent)) = self
   \<and> fst (snd (upload_metrics env self metrics timestamp message partition' sent)) = self
   \<and> fst (snd (upload_external_data env self service_name json_data timestamp message
                  partition' sent)) = self
   \<and> fst (snd (get_project_service_url self service_name sent)) = self
   \<and> fst (snd (read_json_from_file env self file_path sent)) = self"
  by (simp add: upload_findings_def upload_metrics_def upload_external_data_put put_self
      get_project_service_url_def read_json_from_file_def split: sum.split)

text \<open>
  Claim C9. \<open>upload_findings\<close> is \<open>_upload_external_data\<close> at the service name
  \<open>add-external-findings\<close> and \<open>upload_metrics\<close> is it at \<open>add-external-metrics\<close>; for the
  same payload and metadata the two requests are equal but for the URL, and the two URLs
  are equal but for that last path segment.
\<close>

theorem uploads_differ_in_service_name_only:
  "upload_findings env self data timestamp message partition' sent =
     upload_external_data env self (PStr ''add-external-findings'') data timestamp message
       partition' sent
   \<and> upload_metrics env self data timestamp message partition' sent =
     upload_external_data env self (PStr ''add-external-metrics'') data timestamp message
       partition' sent
   \<and> (\<exists>rf rm base.
        snd (snd (upload_findings env self data timestamp message partition' sent)) =
          sent @ [rf]
        \<and> snd (snd (upload_metrics env self data timestamp message partition' sent)) =
          sent @ [rm]
        \<and> req_url rf = base @ ''add-external-findings'' @ ''/''
        \<and> req_url rm = base @ ''add-external-metrics'' @ ''/''
        \<and> rf\<lparr>req_url := []\<rparr> = rm\<lparr>req_url := []\<rparr>)"
  proof -
  let ?base = "py_str (self_url self) @ ''/p/'' @ py_str (self_project self) @ ''/''"
  let ?request = "\<lambda>name.
        \<lparr>req_method = PUT, req_url = ?base @ name @ ''/'',
         req_params = [(''t'', timestamp), (''message'', message), (''partition'', partition'),
                       (''skip-session'', PStr ''true'')],
         req_json = data,
         req_headers = [(''Content-Type'', ''application/json'')],
         req_auth = self_auth_header self\<rparr>"
  have findings: "snd (snd (upload_findings env self data timestamp message partition' sent)) =
                    sent @ [?request ''add-external-findings'']"
    by (simp add: upload_findings_def upload_external_data_put put_sent)
  have metrics: "snd (snd (upload_metrics env self data timestamp message partition' sent)) =
                   sent @ [?request ''add-external-metrics'']"
    by (simp add: upload_metrics_def upload_external_data_put put_sent)
  have same: "(?request ''add-external-findings'')\<lparr>req_url := []\<rparr> =
              (?request ''add-external-metrics'')\<lparr>req_url := []\<rparr>"
    by simp
  have "\<exists>rf rm base.
          snd (snd (upload_findings env self data timestamp message partition' sent)) =
            sent @ [rf]
          \<and> snd (snd (upload_metrics env self data timestamp message partition' sent)) =
            sent @ [rm]
          \<and> req_url rf = base @ ''add-external-findings'' @ ''/''
          \<and> req_url rm = base @ ''add-external-metrics'' @ ''/''
          \<and> rf\<lparr>req_url := []\<rparr> = rm\<lparr>req_url := []\<rparr>"
    apply (rule exI [of _ "?request ''add-external-findings''"])
    apply (rule exI [of _ "?request ''add-external-metrics''"])
    apply (rule exI [of _ ?base])
    using findings metrics same
    apply simp
    done
  then show ?thesis
    by (simp add: upload_findings_def upload_metrics_def)
qed

text \<open>
  Claim C10. The constructor inspects nothing and issues no request: called with four
  values, whatever they are, it succeeds and stores the URL, the user name and the project
  as given, together with the \<open>HTTPBasicAuth\<close> object of user name and password; empty
  strings and \<open>None\<close> are stored like any other value.
\<close>

theorem TeamscaleClient_stores_arguments:
  "TeamscaleClient [url, username, password, project] sent =
     (Inr \<lparr>self_url = url, self_username = username,
           self_auth_header = HTTPBasicAuth username password,
           self_project = project\<rparr>, sent)
   \<and> TeamscaleClient [PStr '''', PStr '''', PStr '''', PStr ''''] sent =
     (Inr \<lparr>self_url = PStr '''', self_username = PStr '''',
           self_auth_header = HTTPBasicAuth (PStr '''') (PStr ''''),
           self_project = PStr ''''\<rparr>, sent)"
  by (simp add: init_def)

end
